theory Spec2Isabelle
  imports Main
begin

section \<open>Data model\<close>

text \<open>
  \<^verbatim>\<open>new ErrorResponse(message, statusCode)\<close>: the typed error every handler hands to
  \<^verbatim>\<open>next\<close>.
\<close>

datatype ErrorResponse = ErrorResponse (message: string) (statusCode: nat)

text \<open>
  A User document as the controllers read and write it. \<open>uid\<close> is the document's
  \<^verbatim>\<open>_id\<close>; a field that JavaScript leaves \<^verbatim>\<open>undefined\<close> is \<open>None\<close>.
  \<^verbatim>\<open>resetPasswordExpire\<close> is a timestamp in milliseconds, as \<^verbatim>\<open>Date.now()\<close> is.
\<close>

record user_doc =
  uid :: string
  name :: string
  email :: string
  role :: string
  password :: string
  resetPasswordToken :: "string option"
  resetPasswordExpire :: "int option"

text \<open>
  A Bootcamp document: its \<^verbatim>\<open>_id\<close>, the id of the owning user (the field
  \<^verbatim>\<open>user\<close>) and the remaining fields of the request body it was created from.
\<close>

record bootcamp_doc =
  bid :: string
  user :: string
  attrs :: "(string \<times> string) list"

text \<open>The argument of \<^verbatim>\<open>sendEmail\<close>.\<close>

record mail =
  mail_email :: string
  mail_subject :: string
  mail_message :: string

text \<open>
  The cookie options of \<^verbatim>\<open>sendTokenResponse\<close>; \<open>secure\<close> is set only in
  production and absent otherwise.
\<close>

record cookie_options =
  expires :: int
  httpOnly :: bool
  secure :: "bool option"

text \<open>
  The JSON bodies the handlers send; every one of them carries \<^verbatim>\<open>success: true\<close>
  beside the field listed here.
\<close>

datatype json_body =
    Token string
  | DataText string
  | DataUser user_doc
  | DataBootcamp bootcamp_doc
  | DataEmpty

record response =
  status :: nat
  cookie :: "(string \<times> string \<times> cookie_options) option"
  body :: json_body

text \<open>
  What a handler does to the outside world, in the order it does it: a document saved,
  a mail handed to the mailer together with the User collection as it stands at that
  call, a response written with \<^verbatim>\<open>res.json\<close>, an error handed to \<^verbatim>\<open>next\<close>, and an
  exception that leaves the handler (named by its error code), which the wrapper around
  every handler hands to \<^verbatim>\<open>next\<close> in turn.
\<close>

datatype effect =
    Save user_doc
  | SendEmail mail "user_doc list"
  | Respond response
  | Next ErrorResponse
  | Throw string

text \<open>
  A handler runs on a collection (the documents in their natural order) and the effects
  so far, and returns both updated.
\<close>

type_synonym 'doc ctx = "'doc list \<times> effect list"

text \<open>The configuration read from \<^verbatim>\<open>process.env\<close>.\<close>

record env =
  JWT_COOKIE_EXPIRE :: int
  NODE_ENV :: string

section \<open>The store and the response object\<close>

text \<open>\<^verbatim>\<open>Model.findOne(filter)\<close>: the first document that satisfies the filter.\<close>

definition findOne :: "('doc \<Rightarrow> bool) \<Rightarrow> 'doc list \<Rightarrow> 'doc option" where
  "findOne flt db = find flt db"

text \<open>
  \<^verbatim>\<open>user.save(...)\<close> writes the in-memory document over the stored one with the same
  \<^verbatim>\<open>_id\<close> and is recorded as an effect.

  Modelled from the spec: the User model (its schema, validators and hooks) is not among
  the sources. The spec says of a save only that it persists the record, so the write is
  total here: a rejection by the schema validators or a lost connection is outside this
  model.
\<close>

definition save :: "user_doc \<Rightarrow> user_doc ctx \<Rightarrow> user_doc ctx" where
  "save u st = (map (\<lambda>d. if uid d = uid u then u else d) (fst st), snd st @ [Save u])"

text \<open>The responses written and the errors forwarded, read off the effects.\<close>

fun responses :: "effect list \<Rightarrow> response list" where
  "responses [] = []"
| "responses (Respond r # es) = r # responses es"
| "responses (_ # es) = responses es"

fun errors :: "effect list \<Rightarrow> ErrorResponse list" where
  "errors [] = []"
| "errors (Next e # es) = e # errors es"
| "errors (_ # es) = errors es"

text \<open>The documents saved, oldest first.\<close>

fun saves :: "effect list \<Rightarrow> user_doc list" where
  "saves [] = []"
| "saves (Save u # es) = u # saves es"
| "saves (_ # es) = saves es"

text \<open>
  \<^verbatim>\<open>res.headersSent\<close>: the request has been answered once a response was written.
\<close>

definition headersSent :: "effect list \<Rightarrow> bool" where
  "headersSent tr = (responses tr \<noteq> [])"

text \<open>
  \<^verbatim>\<open>res.status(s).json(b)\<close>, with the cookie when one was attached. A request is
  answered once: on a request that has its response already, setting the headers of
  another one throws \<^verbatim>\<open>ERR_HTTP_HEADERS_SENT\<close> and nothing is written.
\<close>

definition json :: "response \<Rightarrow> 'doc ctx \<Rightarrow> 'doc ctx" where
  "json r st =
     (if headersSent (snd st) then (fst st, snd st @ [Throw ''ERR_HTTP_HEADERS_SENT''])
      else (fst st, snd st @ [Respond r]))"

text \<open>\<^verbatim>\<open>next(err)\<close>: the error goes to the central error responder.\<close>

definition next_err :: "ErrorResponse \<Rightarrow> 'doc ctx \<Rightarrow> 'doc ctx" where
  "next_err e st = (fst st, snd st @ [Next e])"

text \<open>
  \<^verbatim>\<open>await sendEmail(options)\<close>: the mailer is a parameter that tells whether the
  dispatch resolves (\<open>True\<close>) or throws; the attempt is recorded either way, with the
  collection the store holds when the mailer is called.
\<close>

definition send :: "(mail \<Rightarrow> bool) \<Rightarrow> mail \<Rightarrow> user_doc ctx \<Rightarrow> bool \<times> user_doc ctx" where
  "send sendEmail m st = (sendEmail m, (fst st, snd st @ [SendEmail m (fst st)]))"

text \<open>
  A request succeeded when the handler forwarded no error and wrote exactly one response,
  with status 200.
\<close>

definition succeeded :: "effect list \<Rightarrow> bool" where
  "succeeded tr =
     (errors tr = [] \<and> (case responses tr of [r] \<Rightarrow> status r = 200 | _ \<Rightarrow> False))"

section \<open>The authentication controller\<close>

text \<open>
  \<^verbatim>\<open>sendTokenResponse(user, statusCode, res)\<close>. \<open>getSignedJwtToken\<close> is the User
  model's signing method, a parameter; \<open>now\<close> is \<^verbatim>\<open>Date.now()\<close> at the call.
\<close>

definition sendTokenResponse ::
  "(user_doc \<Rightarrow> string) \<Rightarrow> env \<Rightarrow> int \<Rightarrow> user_doc \<Rightarrow> nat \<Rightarrow> 'doc ctx \<Rightarrow> 'doc ctx" where
  "sendTokenResponse getSignedJwtToken cfg now u code st =
     (let token = getSignedJwtToken u;
          options = \<lparr>expires = now + JWT_COOKIE_EXPIRE cfg * 24 * 60 * 60 * 1000,
                     httpOnly = True,
                     secure = (if NODE_ENV cfg = ''production'' then Some True else None)\<rparr>
      in json \<lparr>status = code, cookie = Some (''token'', token, options),
               body = Token token\<rparr> st)"

text \<open>
  A field of \<^verbatim>\<open>req.body\<close> is \<open>None\<close> when absent. JavaScript's \<^verbatim>\<open>!x\<close> holds for an
  absent field and for the empty string.
\<close>

fun falsy :: "string option \<Rightarrow> bool" where
  "falsy None = True"
| "falsy (Some s) = (s = [])"

text \<open>
  \<^verbatim>\<open>exports.login\<close>. \<open>matchPassword\<close> is the User model's verification of an entered
  password against the stored hash, a parameter. The last case is the presence check
  again, for a request in which one of the two fields is absent.
\<close>

definition login ::
  "(user_doc \<Rightarrow> string \<Rightarrow> bool) \<Rightarrow> (user_doc \<Rightarrow> string) \<Rightarrow> env \<Rightarrow> int \<Rightarrow>
   string option \<Rightarrow> string option \<Rightarrow> user_doc ctx \<Rightarrow> user_doc ctx" where
  "login matchPassword getSignedJwtToken cfg now body_email body_password st =
     (case (body_email, body_password) of
        (Some e, Some pw) \<Rightarrow>
          if falsy (Some e) \<or> falsy (Some pw) then
            next_err (ErrorResponse ''Please provide a email and password'' 400) st
          else
            (case findOne (\<lambda>d. email d = e) (fst st) of
               None \<Rightarrow> next_err (ErrorResponse ''Invalid credentials'' 401) st
             | Some u \<Rightarrow>
                 if \<not> matchPassword u pw then
                   next_err (ErrorResponse ''Invalid credentials'' 401) st
                 else sendTokenResponse getSignedJwtToken cfg now u 200 st)
      | _ \<Rightarrow> next_err (ErrorResponse ''Please provide a email and password'' 400) st)"

text \<open>
  \<^verbatim>\<open>user.getResetPasswordToken()\<close>.

  Modelled from the spec: the method belongs to the User model, which is not among the
  sources. By the spec it generates a random token (\<open>rnd\<close>, a parameter), stores only
  the token's one-way hash and an expiry ten minutes after issuance on the document, and
  returns the plaintext token.
\<close>

definition getResetPasswordToken ::
  "(string \<Rightarrow> string) \<Rightarrow> string \<Rightarrow> int \<Rightarrow> user_doc \<Rightarrow> string \<times> user_doc" where
  "getResetPasswordToken sha256 rnd now u =
     (rnd, u\<lparr>resetPasswordToken := Some (sha256 rnd),
             resetPasswordExpire := Some (now + 10 * 60 * 1000)\<rparr>)"

text \<open>The text of the reset mail, with the line break of the template literal.\<close>

definition reset_message :: "string \<Rightarrow> string" where
  "reset_message resetUrl =
     ''You are reciving this email because you (or some one else) has'' @ [CHR 0x0A] @
     ''  requested the reset of a password. Please make a PUT request to: '' @
     [CHR 0x0A, CHR 0x0A] @ '' '' @ resetUrl"

text \<open>
  The mail of \<^verbatim>\<open>forgotPassword\<close>: the reset URL embeds the plaintext token, and the
  mail goes to the address stored on the document.
\<close>

definition reset_mail :: "string \<Rightarrow> string \<Rightarrow> string \<Rightarrow> user_doc \<Rightarrow> mail" where
  "reset_mail protocol host resetToken u =
     (let resetUrl = protocol @ ''://'' @ host @ ''/api/v1/auth/resetpassword/'' @ resetToken
      in \<lparr>mail_email = email u, mail_subject = ''Password reset token'',
          mail_message = reset_message resetUrl\<rparr>)"

text \<open>
  \<^verbatim>\<open>exports.forgotPassword\<close>. \<open>protocol\<close> and \<open>host\<close> are \<^verbatim>\<open>req.protocol\<close> and
  \<^verbatim>\<open>req.get('host')\<close>. The \<^verbatim>\<open>try\<close> block holds the dispatch and the first
  \<^verbatim>\<open>res.json\<close>: when either throws, the \<^verbatim>\<open>catch\<close> branch runs. When both go through,
  control leaves the \<^verbatim>\<open>try\<close> statement and the \<^verbatim>\<open>res.json\<close> after it runs as well, on
  a request that is answered by then.
\<close>

definition forgotPassword ::
  "(string \<Rightarrow> string) \<Rightarrow> (mail \<Rightarrow> bool) \<Rightarrow> string \<Rightarrow> int \<Rightarrow> string \<Rightarrow> string \<Rightarrow>
   string \<Rightarrow> user_doc ctx \<Rightarrow> user_doc ctx" where
  "forgotPassword sha256 sendEmail rnd now protocol host body_email st =
     (case findOne (\<lambda>d. email d = body_email) (fst st) of
        None \<Rightarrow>
          next_err (ErrorResponse (''There is no user with the email '' @ body_email) 404) st
      | Some u0 \<Rightarrow>
          (let (resetToken, u1) = getResetPasswordToken sha256 rnd now u0;
               st1 = save u1 st;
               (sent, st2) = send sendEmail (reset_mail protocol host resetToken u1) st1
           in if sent \<and> \<not> headersSent (snd st2) then
                (let st3 = json \<lparr>status = 200, cookie = None, body = DataText ''Email sent''\<rparr> st2
                 in json \<lparr>status = 200, cookie = None, body = DataUser u1\<rparr> st3)
              else
                (let u2 = u1\<lparr>resetPasswordToken := None, resetPasswordExpire := None\<rparr>;
                     st3 = save u2 st2
                 in next_err (ErrorResponse ''Email could not be sent'' 500) st3)))"

text \<open>
  The filter of \<^verbatim>\<open>resetPassword\<close>'s query: the stored token hash equals the given
  one, and the stored expiry is greater than \<open>now\<close> (\<^verbatim>\<open>$gt: Date.now()\<close>); a document
  without an expiry does not match.
\<close>

definition reset_query :: "string \<Rightarrow> int \<Rightarrow> user_doc \<Rightarrow> bool" where
  "reset_query tokenHash now d =
     (resetPasswordToken d = Some tokenHash \<and>
      (case resetPasswordExpire d of None \<Rightarrow> False | Some e \<Rightarrow> e > now))"

text \<open>
  \<^verbatim>\<open>exports.resetPassword\<close>. \<open>sha256\<close> is
  \<^verbatim>\<open>crypto.createHash('sha256').update(t).digest('hex')\<close>; \<open>now\<close> is \<^verbatim>\<open>Date.now()\<close>
  in the query and \<open>now'\<close> the one in \<^verbatim>\<open>sendTokenResponse\<close>.

  Modelled from the spec: the hashing of a changed password on save belongs to the User
  model, which is not among the sources. By the spec the new password is re-hashed when
  the record is persisted; \<open>hashPassword\<close> is that hash, a parameter.
\<close>

definition resetPassword ::
  "(string \<Rightarrow> string) \<Rightarrow> (string \<Rightarrow> string) \<Rightarrow> (user_doc \<Rightarrow> string) \<Rightarrow> env \<Rightarrow>
   int \<Rightarrow> int \<Rightarrow> string \<Rightarrow> string \<Rightarrow> user_doc ctx \<Rightarrow> user_doc ctx" where
  "resetPassword sha256 hashPassword getSignedJwtToken cfg now now' resettoken body_password st =
     (let tokenHash = sha256 resettoken
      in case findOne (reset_query tokenHash now) (fst st) of
           None \<Rightarrow> next_err (ErrorResponse ''Invalid Token'' 400) st
         | Some u0 \<Rightarrow>
             (let u1 = u0\<lparr>password := hashPassword body_password,
                          resetPasswordToken := None, resetPasswordExpire := None\<rparr>;
                  st1 = save u1 st
              in sendTokenResponse getSignedJwtToken cfg now' u1 200 st1))"

section \<open>The bootcamp controller\<close>

text \<open>\<^verbatim>\<open>Bootcamp.findById(id)\<close>.\<close>

definition findById :: "string \<Rightarrow> bootcamp_doc list \<Rightarrow> bootcamp_doc option" where
  "findById i db = findOne (\<lambda>b. bid b = i) db"

text \<open>Deleting one document: the first that satisfies the filter goes, the rest stay.\<close>

fun deleteOne :: "('doc \<Rightarrow> bool) \<Rightarrow> 'doc list \<Rightarrow> 'doc list" where
  "deleteOne flt [] = []"
| "deleteOne flt (d # ds) = (if flt d then ds else d # deleteOne flt ds)"

text \<open>
  \<^verbatim>\<open>Bootcamp.findByIdAndDelete(id)\<close>: the document found, if any, and the collection
  without it.
\<close>

definition findByIdAndDelete ::
  "string \<Rightarrow> bootcamp_doc list \<Rightarrow> bootcamp_doc option \<times> bootcamp_doc list" where
  "findByIdAndDelete i db = (findById i db, deleteOne (\<lambda>b. bid b = i) db)"

text \<open>
  \<^verbatim>\<open>exports.createBootcamp\<close>. \<open>user_id\<close> and \<open>user_role\<close> are \<^verbatim>\<open>req.user.id\<close> and
  \<^verbatim>\<open>req.user.role\<close>, \<open>req_body\<close> is \<^verbatim>\<open>req.body\<close>. \<open>create\<close> is
  \<^verbatim>\<open>Bootcamp.create\<close>, a parameter since the Bootcamp model is not among the sources: it
  gives the new document and the collection holding it, or the error it throws, which
  the handler's wrapper forwards to \<^verbatim>\<open>next\<close>.
\<close>

definition createBootcamp ::
  "((string \<rightharpoonup> string) \<Rightarrow> bootcamp_doc list \<Rightarrow> ErrorResponse + bootcamp_doc \<times> bootcamp_doc list) \<Rightarrow>
   string \<Rightarrow> string \<Rightarrow> (string \<rightharpoonup> string) \<Rightarrow> bootcamp_doc ctx \<Rightarrow> bootcamp_doc ctx" where
  "createBootcamp create user_id user_role req_body st =
     (let req_body' = req_body(''user'' \<mapsto> user_id);
          publishedBootcamp = findOne (\<lambda>b. user b = user_id) (fst st)
      in if publishedBootcamp \<noteq> None \<and> user_role \<noteq> ''admin'' then
           next_err (ErrorResponse
             (''The user with id: '' @ user_id @ '' has already published a bootcamp'') 400) st
         else
           (case create req_body' (fst st) of
              Inl e \<Rightarrow> next_err e st
            | Inr (bootcamp, db') \<Rightarrow>
                json \<lparr>status = 201, cookie = None, body = DataBootcamp bootcamp\<rparr> (db', snd st)))"

text \<open>
  \<^verbatim>\<open>exports.deleteBootcamp\<close>. \<open>req_id\<close> is \<^verbatim>\<open>req.params.id\<close>. The collection is
  changed by \<^verbatim>\<open>findByIdAndDelete\<close> in the first statement; \<^verbatim>\<open>bootcamp.remove()\<close>
  at the end deletes by the document's \<^verbatim>\<open>_id\<close> once more.
\<close>

definition deleteBootcamp ::
  "string \<Rightarrow> string \<Rightarrow> string \<Rightarrow> bootcamp_doc ctx \<Rightarrow> bootcamp_doc ctx" where
  "deleteBootcamp req_id user_id user_role st =
     (let (found, db') = findByIdAndDelete req_id (fst st);
          st1 = (db', snd st)
      in case found of
           None \<Rightarrow>
             next_err (ErrorResponse (''Bootcamp not found with id of: '' @ req_id) 404) st1
         | Some bootcamp \<Rightarrow>
             if user bootcamp \<noteq> user_id \<and> user_role \<noteq> ''admin'' then
               next_err (ErrorResponse
                 (''User '' @ user_id @ '' is not authorized to delete this bootcamp'') 401) st1
             else
               (let st2 = (deleteOne (\<lambda>b. bid b = bid bootcamp) (fst st1), snd st1)
                in json \<lparr>status = 200, cookie = None, body = DataEmpty\<rparr> st2))"

section \<open>Sample data\<close>

text \<open>
  Two stored users and stand-ins for the library functions, for evaluating the handlers
  on concrete requests. Bob has a pending reset for the token \<open>''tok''\<close> that expires at
  time 5000.
\<close>

definition ann :: user_doc where
  "ann = \<lparr>uid = ''u1'', name = ''Ann'', email = ''ann@x.com'', role = ''user'',
          password = ''$secret1'', resetPasswordToken = None, resetPasswordExpire = None\<rparr>"

definition bob :: user_doc where
  "bob = \<lparr>uid = ''u2'', name = ''Bob'', email = ''bob@x.com'', role = ''publisher'',
          password = ''$hunter2'', resetPasswordToken = Some ''#tok'',
          resetPasswordExpire = Some 5000\<rparr>"

definition demo_sha256 :: "string \<Rightarrow> string" where
  "demo_sha256 t = ''#'' @ t"

definition demo_hashPassword :: "string \<Rightarrow> string" where
  "demo_hashPassword pw = ''$'' @ pw"

definition demo_matchPassword :: "user_doc \<Rightarrow> string \<Rightarrow> bool" where
  "demo_matchPassword u pw = (password u = demo_hashPassword pw)"

definition demo_sign :: "user_doc \<Rightarrow> string" where
  "demo_sign u = ''jwt.'' @ uid u"

definition demo_env :: env where
  "demo_env = \<lparr>JWT_COOKIE_EXPIRE = 30, NODE_ENV = ''development''\<rparr>"

text \<open>
  Two stored bootcamps, one owned by each user, and a stand-in for \<^verbatim>\<open>Bootcamp.create\<close>
  that accepts every body and appends the new document.
\<close>

definition camp1 :: bootcamp_doc where
  "camp1 = \<lparr>bid = ''b1'', user = ''u1'', attrs = [(''name'', ''Devworks'')]\<rparr>"

definition camp2 :: bootcamp_doc where
  "camp2 = \<lparr>bid = ''b2'', user = ''u2'', attrs = [(''name'', ''ModernTech'')]\<rparr>"

definition demo_create ::
  "(string \<rightharpoonup> string) \<Rightarrow> bootcamp_doc list \<Rightarrow> ErrorResponse + bootcamp_doc \<times> bootcamp_doc list" where
  "demo_create b db =
     (let doc = \<lparr>bid = ''b3'', user = (case b ''user'' of None \<Rightarrow> [] | Some i \<Rightarrow> i),
                  attrs = []\<rparr>
      in Inr (doc, db @ [doc]))"

section \<open>Facts about the store\<close>

lemma find_None_iff_set: "find P xs = None \<longleftrightarrow> (\<forall>x \<in> set xs. \<not> P x)"
  by (induction xs) auto

lemma find_Some_set: "find P xs = Some x \<Longrightarrow> x \<in> set xs \<and> P x"
  by (induction xs) (auto split: if_splits)

lemma reset_query_iff:
  "reset_query h now d \<longleftrightarrow>
     resetPasswordToken d = Some h \<and> (\<exists>e. resetPasswordExpire d = Some e \<and> now < e)"
  by (auto simp: reset_query_def split: option.splits)

lemma sendTokenResponse_effects:
  "\<not> headersSent (snd st) \<Longrightarrow> snd (sendTokenResponse sign cfg t u c st) =
     snd st @ [Respond \<lparr>status = c,
        cookie = Some (''token'', sign u,
          \<lparr>expires = t + JWT_COOKIE_EXPIRE cfg * 24 * 60 * 60 * 1000, httpOnly = True,
           secure = (if NODE_ENV cfg = ''production'' then Some True else None)\<rparr>),
        body = Token (sign u)\<rparr>]"
  "fst (sendTokenResponse sign cfg t u c st) = fst st"
  by (simp_all add: sendTokenResponse_def Let_def json_def)

section \<open>Reset password\<close>

lemma resetPassword_None:
  assumes "findOne (reset_query (sha256 resettoken) now) db = None"
  shows "resetPassword sha256 hashPassword getSignedJwtToken cfg now now' resettoken body_password
           (db, tr) = (db, tr @ [Next (ErrorResponse ''Invalid Token'' 400)])"
  using assms by (simp add: resetPassword_def next_err_def)

lemma resetPassword_Some:
  assumes "findOne (reset_query (sha256 resettoken) now) db = Some u0"
  shows "resetPassword sha256 hashPassword getSignedJwtToken cfg now now' resettoken body_password
           (db, tr) =
         sendTokenResponse getSignedJwtToken cfg now'
           (u0\<lparr>password := hashPassword body_password, resetPasswordToken := None,
               resetPasswordExpire := None\<rparr>) 200
           (save (u0\<lparr>password := hashPassword body_password, resetPasswordToken := None,
               resetPasswordExpire := None\<rparr>) (db, tr))"
  using assms by (simp add: resetPassword_def Let_def)

text \<open>
  C1. ResetPassword succeeds exactly when some stored User's \<open>resetPasswordToken\<close> equals
  the sha256 hash of the presented token and that User's \<open>resetPasswordExpire\<close> is
  strictly later than the current time. When there is no such User (a wrong token, or an
  expired one) the handler forwards the error "Invalid Token" with status 400, writes no
  response and leaves the store untouched.
\<close>

theorem resetPassword_succeeds_iff:
  "(succeeded (snd (resetPassword sha256 hashPassword getSignedJwtToken cfg now now'
                     resettoken body_password (db, [])))
     \<longleftrightarrow> (\<exists>d \<in> set db. resetPasswordToken d = Some (sha256 resettoken) \<and>
                         (\<exists>e. resetPasswordExpire d = Some e \<and> now < e)))
   \<and> (\<not> (\<exists>d \<in> set db. resetPasswordToken d = Some (sha256 resettoken) \<and>
                         (\<exists>e. resetPasswordExpire d = Some e \<and> now < e))
      \<longrightarrow> resetPassword sha256 hashPassword getSignedJwtToken cfg now now'
            resettoken body_password (db, []) =
          (db, [Next (ErrorResponse ''Invalid Token'' 400)]))"
proof (cases "findOne (reset_query (sha256 resettoken) now) db")
  case None
  then have no: "\<not> (\<exists>d \<in> set db. resetPasswordToken d = Some (sha256 resettoken) \<and>
                         (\<exists>e. resetPasswordExpire d = Some e \<and> now < e))"
    by (simp add: findOne_def find_None_iff_set reset_query_iff)
  show ?thesis
    using no None by (simp add: resetPassword_None succeeded_def)
next
  case (Some u0)
  then have "u0 \<in> set db \<and> reset_query (sha256 resettoken) now u0"
    by (simp add: findOne_def find_Some_set)
  then have yes: "\<exists>d \<in> set db. resetPasswordToken d = Some (sha256 resettoken) \<and>
                         (\<exists>e. resetPasswordExpire d = Some e \<and> now < e)"
    by (auto simp: reset_query_iff)
  have "succeeded (snd (resetPassword sha256 hashPassword getSignedJwtToken cfg now now'
                     resettoken body_password (db, [])))"
    using Some
    by (simp add: resetPassword_Some sendTokenResponse_effects save_def headersSent_def
          succeeded_def)
  with yes show ?thesis by simp
qed

text \<open>
  The theorem at three requests against Ann and Bob: Bob's token before its expiry is
  accepted; the same token at the expiry instant and a wrong token are both turned down
  with "Invalid Token", 400.
\<close>

theorem resetPassword_succeeds_iff_witness:
  "succeeded (snd (resetPassword demo_sha256 demo_hashPassword demo_sign demo_env 4000 4001
                    ''tok'' ''newpass'' ([ann, bob], [])))
   \<and> resetPassword demo_sha256 demo_hashPassword demo_sign demo_env 5000 5001
        ''tok'' ''newpass'' ([ann, bob], []) =
       ([ann, bob], [Next (ErrorResponse ''Invalid Token'' 400)])
   \<and> resetPassword demo_sha256 demo_hashPassword demo_sign demo_env 4000 4001
        ''tik'' ''newpass'' ([ann, bob], []) =
       ([ann, bob], [Next (ErrorResponse ''Invalid Token'' 400)])"
  using resetPassword_succeeds_iff [of demo_sha256 demo_hashPassword demo_sign demo_env 4000 4001
          "''tok''" "''newpass''" "[ann, bob]"]
        resetPassword_succeeds_iff [of demo_sha256 demo_hashPassword demo_sign demo_env 5000 5001
          "''tok''" "''newpass''" "[ann, bob]"]
        resetPassword_succeeds_iff [of demo_sha256 demo_hashPassword demo_sign demo_env 4000 4001
          "''tik''" "''newpass''" "[ann, bob]"]
  by (simp add: ann_def bob_def demo_sha256_def)

section \<open>Forgot password: the unknown email\<close>

text \<open>
  C8. A ForgotPassword request whose email belongs to no stored User forwards exactly one
  error, with status 404 and the message "There is no user with the email " followed by
  the email of the request; it writes no response and leaves the store as it was.
\<close>

theorem forgotPassword_unknown_email:
  assumes "\<forall>d \<in> set db. email d \<noteq> body_email"
  shows "forgotPassword sha256 sendEmail rnd now protocol host body_email (db, []) =
           (db, [Next (ErrorResponse (''There is no user with the email '' @ body_email) 404)])"
proof -
  have "findOne (\<lambda>d. email d = body_email) db = None"
    using assms by (simp add: findOne_def find_None_iff_set)
  then show ?thesis
    by (simp add: forgotPassword_def next_err_def)
qed

theorem forgotPassword_unknown_email_witness:
  "''unknown@x.com'' \<notin> set (map email [ann, bob])
   \<and> forgotPassword demo_sha256 (\<lambda>m. True) ''r4nd0m'' 1000 ''http'' ''localhost:5000''
        ''unknown@x.com'' ([ann, bob], []) =
       ([ann, bob],
        [Next (ErrorResponse ''There is no user with the email unknown@x.com'' 404)])"
proof -
  have h: "\<forall>d \<in> set [ann, bob]. email d \<noteq> ''unknown@x.com''"
    by (simp add: ann_def bob_def)
  show ?thesis
    using h forgotPassword_unknown_email [OF h, of demo_sha256 "\<lambda>m. True" "''r4nd0m''" 1000
            "''http''" "''localhost:5000''"]
    by (simp add: ann_def bob_def)
qed

section \<open>Login\<close>

text \<open>
  C2. A Login request in which email or password is absent (or empty, which the presence
  check \<^verbatim>\<open>!email || !password\<close> treats alike) forwards an error with status 400. A
  request that passes the presence check and whose email matches no User, and one whose
  email matches a User whose stored hash does not verify the password, forward the very
  same error: message "Invalid credentials", status 401, with nothing else written, so the
  two cannot be told apart.
\<close>

theorem login_failures:
  "(falsy body_email \<or> falsy body_password \<longrightarrow>
      login matchPassword sign cfg now body_email body_password (db, []) =
        (db, [Next (ErrorResponse ''Please provide a email and password'' 400)]))
   \<and> (e \<noteq> [] \<and> pw \<noteq> [] \<and> (\<forall>d \<in> set db. email d \<noteq> e) \<longrightarrow>
      login matchPassword sign cfg now (Some e) (Some pw) (db, []) =
        (db, [Next (ErrorResponse ''Invalid credentials'' 401)]))
   \<and> (e \<noteq> [] \<and> pw \<noteq> [] \<and> findOne (\<lambda>d. email d = e) db = Some u \<and> \<not> matchPassword u pw \<longrightarrow>
      login matchPassword sign cfg now (Some e) (Some pw) (db, []) =
        (db, [Next (ErrorResponse ''Invalid credentials'' 401)]))"
proof (intro conjI impI)
  assume "falsy body_email \<or> falsy body_password"
  then show "login matchPassword sign cfg now body_email body_password (db, []) =
        (db, [Next (ErrorResponse ''Please provide a email and password'' 400)])"
    by (cases body_email; cases body_password) (auto simp: login_def next_err_def)
next
  assume a: "e \<noteq> [] \<and> pw \<noteq> [] \<and> (\<forall>d \<in> set db. email d \<noteq> e)"
  then have "findOne (\<lambda>d. email d = e) db = None"
    by (simp add: findOne_def find_None_iff_set)
  with a show "login matchPassword sign cfg now (Some e) (Some pw) (db, []) =
        (db, [Next (ErrorResponse ''Invalid credentials'' 401)])"
    by (simp add: login_def next_err_def)
next
  assume "e \<noteq> [] \<and> pw \<noteq> [] \<and> findOne (\<lambda>d. email d = e) db = Some u \<and> \<not> matchPassword u pw"
  then show "login matchPassword sign cfg now (Some e) (Some pw) (db, []) =
        (db, [Next (ErrorResponse ''Invalid credentials'' 401)])"
    by (simp add: login_def next_err_def)
qed

text \<open>
  The theorem at four requests against Ann and Bob: a request without email, one without
  password, an unknown email with some password, and Ann's email with a wrong password.
  The last two come back equal. Ann's right password is let in.
\<close>

theorem login_failures_witness:
  "login demo_matchPassword demo_sign demo_env 4000 None (Some ''secret1'') ([ann, bob], []) =
     ([ann, bob], [Next (ErrorResponse ''Please provide a email and password'' 400)])
   \<and> login demo_matchPassword demo_sign demo_env 4000 (Some ''ann@x.com'') None ([ann, bob], []) =
     ([ann, bob], [Next (ErrorResponse ''Please provide a email and password'' 400)])
   \<and> login demo_matchPassword demo_sign demo_env 4000 (Some ''zed@x.com'') (Some ''wrong'')
       ([ann, bob], []) =
     ([ann, bob], [Next (ErrorResponse ''Invalid credentials'' 401)])
   \<and> login demo_matchPassword demo_sign demo_env 4000 (Some ''ann@x.com'') (Some ''wrong'')
       ([ann, bob], []) =
     ([ann, bob], [Next (ErrorResponse ''Invalid credentials'' 401)])
   \<and> succeeded (snd (login demo_matchPassword demo_sign demo_env 4000 (Some ''ann@x.com'')
       (Some ''secret1'') ([ann, bob], [])))"
proof -
  have f: "findOne (\<lambda>d. email d = ''ann@x.com'') [ann, bob] = Some ann"
    by (simp add: findOne_def ann_def)
  have m: "\<not> demo_matchPassword ann ''wrong''"
    by (simp add: demo_matchPassword_def demo_hashPassword_def ann_def)
  have n: "\<forall>d \<in> set [ann, bob]. email d \<noteq> ''zed@x.com''"
    by (simp add: ann_def bob_def)
  have ok: "succeeded (snd (login demo_matchPassword demo_sign demo_env 4000 (Some ''ann@x.com'')
       (Some ''secret1'') ([ann, bob], [])))"
    by (simp add: login_def findOne_def sendTokenResponse_effects headersSent_def succeeded_def
          demo_matchPassword_def demo_hashPassword_def ann_def)
  show ?thesis
    using login_failures [of None "Some ''secret1''" demo_matchPassword demo_sign demo_env 4000
            "[ann, bob]" "''zed@x.com''" "''wrong''" ann]
          login_failures [of "Some ''ann@x.com''" None demo_matchPassword demo_sign demo_env 4000
            "[ann, bob]" "''ann@x.com''" "''wrong''" ann]
          f m n ok
    by simp
qed

section \<open>Forgot password: a stored user\<close>

lemma reset_mail_email_only:
  "reset_mail protocol host t (u\<lparr>resetPasswordToken := a, resetPasswordExpire := b\<rparr>) =
     reset_mail protocol host t u"
  by (simp add: reset_mail_def)

lemma save_store:
  "fst (save u st) = map (\<lambda>d. if uid d = uid u then u else d) (fst st)"
  "snd (save u st) = snd st @ [Save u]"
  by (simp_all add: save_def)

lemma map_save_twice:
  "uid b = i \<Longrightarrow>
   map (\<lambda>d. if uid d = i then a else d) (map (\<lambda>d. if uid d = i then b else d) db) =
   map (\<lambda>d. if uid d = i then a else d) db"
  by (induction db) auto

text \<open>
  What \<^verbatim>\<open>forgotPassword\<close> does once the user is found, for either outcome of the
  mailer: the store it leaves and the effects in their order.
\<close>

lemma forgotPassword_found:
  assumes "findOne (\<lambda>d. email d = body_email) db = Some u"
  shows "forgotPassword sha256 sendEmail rnd now protocol host body_email (db, []) =
     (if sendEmail (reset_mail protocol host rnd u) then
        (map (\<lambda>d. if uid d = uid u
                   then u\<lparr>resetPasswordToken := Some (sha256 rnd),
                          resetPasswordExpire := Some (now + 600000)\<rparr>
                   else d) db,
         [Save (u\<lparr>resetPasswordToken := Some (sha256 rnd),
                   resetPasswordExpire := Some (now + 600000)\<rparr>),
          SendEmail (reset_mail protocol host rnd u)
            (map (\<lambda>d. if uid d = uid u
                       then u\<lparr>resetPasswordToken := Some (sha256 rnd),
                              resetPasswordExpire := Some (now + 600000)\<rparr>
                       else d) db),
          Respond \<lparr>status = 200, cookie = None, body = DataText ''Email sent''\<rparr>,
          Throw ''ERR_HTTP_HEADERS_SENT''])
      else
        (map (\<lambda>d. if uid d = uid u
                   then u\<lparr>resetPasswordToken := None, resetPasswordExpire := None\<rparr>
                   else d) db,
         [Save (u\<lparr>resetPasswordToken := Some (sha256 rnd),
                   resetPasswordExpire := Some (now + 600000)\<rparr>),
          SendEmail (reset_mail protocol host rnd u)
            (map (\<lambda>d. if uid d = uid u
                       then u\<lparr>resetPasswordToken := Some (sha256 rnd),
                              resetPasswordExpire := Some (now + 600000)\<rparr>
                       else d) db),
          Save (u\<lparr>resetPasswordToken := None, resetPasswordExpire := None\<rparr>),
          Next (ErrorResponse ''Email could not be sent'' 500)]))"
  using assms
  by (simp add: forgotPassword_def getResetPasswordToken_def save_def send_def json_def
        headersSent_def next_err_def reset_mail_email_only Let_def map_save_twice
        del: map_map)


text \<open>
  C3. When ForgotPassword finds the User and the mailer fails, the handler forwards the
  error "Email could not be sent" with status 500 and writes no response; the last
  document it saved is the User with \<open>resetPasswordToken\<close> and \<open>resetPasswordExpire\<close>
  both absent, and in the store the User is still there with both fields absent.
\<close>

theorem forgotPassword_mail_failure:
  assumes "findOne (\<lambda>d. email d = body_email) db = Some u"
      and "\<not> sendEmail (reset_mail protocol host rnd u)"
      and "out = forgotPassword sha256 sendEmail rnd now protocol host body_email (db, [])"
  shows "errors (snd out) = [ErrorResponse ''Email could not be sent'' 500]
       \<and> responses (snd out) = []
       \<and> last (saves (snd out)) = u\<lparr>resetPasswordToken := None, resetPasswordExpire := None\<rparr>
       \<and> (\<exists>d \<in> set (fst out). uid d = uid u)
       \<and> (\<forall>d \<in> set (fst out). uid d = uid u \<longrightarrow>
             resetPasswordToken d = None \<and> resetPasswordExpire d = None)"
proof -
  have mem: "u \<in> set db"
    using assms(1) by (simp add: findOne_def find_Some_set)
  have out: "out =
        (map (\<lambda>d. if uid d = uid u
                   then u\<lparr>resetPasswordToken := None, resetPasswordExpire := None\<rparr>
                   else d) db,
         [Save (u\<lparr>resetPasswordToken := Some (sha256 rnd),
                   resetPasswordExpire := Some (now + 600000)\<rparr>),
          SendEmail (reset_mail protocol host rnd u)
            (map (\<lambda>d. if uid d = uid u
                       then u\<lparr>resetPasswordToken := Some (sha256 rnd),
                              resetPasswordExpire := Some (now + 600000)\<rparr>
                       else d) db),
          Save (u\<lparr>resetPasswordToken := None, resetPasswordExpire := None\<rparr>),
          Next (ErrorResponse ''Email could not be sent'' 500)])"
    using assms by (simp add: forgotPassword_found)
  have tr: "errors (snd out) = [ErrorResponse ''Email could not be sent'' 500]"
           "responses (snd out) = []"
           "last (saves (snd out)) = u\<lparr>resetPasswordToken := None, resetPasswordExpire := None\<rparr>"
    by (simp_all add: out)
  have "u\<lparr>resetPasswordToken := None, resetPasswordExpire := None\<rparr> \<in> set (fst out)"
    using mem by (force simp: out image_iff)
  then have ex: "\<exists>d \<in> set (fst out). uid d = uid u"
    by (intro bexI [of _ "u\<lparr>resetPasswordToken := None, resetPasswordExpire := None\<rparr>"])
       simp_all
  have all: "\<forall>d \<in> set (fst out). uid d = uid u \<longrightarrow>
             resetPasswordToken d = None \<and> resetPasswordExpire d = None"
    by (auto simp: out)
  from tr ex all show ?thesis by blast
qed

text \<open>
  The theorem at Bob's request with a mailer that always fails: Bob's earlier pending
  token is gone as well.
\<close>

theorem forgotPassword_mail_failure_witness:
  "forgotPassword demo_sha256 (\<lambda>m. False) ''r4nd0m'' 1000 ''http'' ''localhost:5000''
     ''bob@x.com'' ([ann, bob], []) =
   ([ann, bob\<lparr>resetPasswordToken := None, resetPasswordExpire := None\<rparr>],
    [Save (bob\<lparr>resetPasswordToken := Some ''#r4nd0m'', resetPasswordExpire := Some 601000\<rparr>),
     SendEmail (reset_mail ''http'' ''localhost:5000'' ''r4nd0m'' bob)
       [ann, bob\<lparr>resetPasswordToken := Some ''#r4nd0m'', resetPasswordExpire := Some 601000\<rparr>],
     Save (bob\<lparr>resetPasswordToken := None, resetPasswordExpire := None\<rparr>),
     Next (ErrorResponse ''Email could not be sent'' 500)])
   \<and> errors (snd (forgotPassword demo_sha256 (\<lambda>m. False) ''r4nd0m'' 1000 ''http''
        ''localhost:5000'' ''bob@x.com'' ([ann, bob], []))) =
       [ErrorResponse ''Email could not be sent'' 500]
   \<and> list_all (\<lambda>d. resetPasswordToken d = None \<and> resetPasswordExpire d = None)
        (fst (forgotPassword demo_sha256 (\<lambda>m. False) ''r4nd0m'' 1000 ''http''
        ''localhost:5000'' ''bob@x.com'' ([ann, bob], [])))"
proof -
  have f: "findOne (\<lambda>d. email d = ''bob@x.com'') [ann, bob] = Some bob"
    by (simp add: findOne_def ann_def bob_def)
  have v: "forgotPassword demo_sha256 (\<lambda>m. False) ''r4nd0m'' 1000 ''http'' ''localhost:5000''
     ''bob@x.com'' ([ann, bob], []) =
   ([ann, bob\<lparr>resetPasswordToken := None, resetPasswordExpire := None\<rparr>],
    [Save (bob\<lparr>resetPasswordToken := Some ''#r4nd0m'', resetPasswordExpire := Some 601000\<rparr>),
     SendEmail (reset_mail ''http'' ''localhost:5000'' ''r4nd0m'' bob)
       [ann, bob\<lparr>resetPasswordToken := Some ''#r4nd0m'', resetPasswordExpire := Some 601000\<rparr>],
     Save (bob\<lparr>resetPasswordToken := None, resetPasswordExpire := None\<rparr>),
     Next (ErrorResponse ''Email could not be sent'' 500)])"
    by (simp add: forgotPassword_found [OF f] demo_sha256_def) (simp add: ann_def bob_def)
  show ?thesis
    using forgotPassword_mail_failure [OF f, of "\<lambda>m. False" "''http''" "''localhost:5000''"
            "''r4nd0m''" _ demo_sha256 1000, OF _ refl] v
    by (simp add: ann_def)
qed

text \<open>
  C5. In any ForgotPassword request, whenever a mail is handed to the mailer, a save of
  the addressee's document has come before it, and that document carries the hash of the
  generated token and the expiry ten minutes ahead. The store the mailer is called in is
  the initial store with exactly that document written over the addressee's: the record
  in the Credential Store has both reset fields set before the dispatch is attempted.
\<close>

theorem forgotPassword_save_before_mail:
  assumes "tr = snd (forgotPassword sha256 sendEmail rnd now protocol host body_email (db, []))"
      and "i < length tr"
      and "tr ! i = SendEmail m db'"
  shows "\<exists>j<i. \<exists>u. tr ! j = Save u \<and> mail_email m = email u
           \<and> resetPasswordToken u = Some (sha256 rnd)
           \<and> resetPasswordExpire u = Some (now + 10 * 60 * 1000)
           \<and> db' = map (\<lambda>d. if uid d = uid u then u else d) db
           \<and> u \<in> set db'
           \<and> (\<forall>d \<in> set db'. uid d = uid u \<longrightarrow>
                 resetPasswordToken d = Some (sha256 rnd)
                 \<and> resetPasswordExpire d = Some (now + 10 * 60 * 1000))"
proof (cases "findOne (\<lambda>d. email d = body_email) db")
  case None
  then have "tr = [Next (ErrorResponse (''There is no user with the email '' @ body_email) 404)]"
    using assms(1) by (simp add: forgotPassword_def next_err_def)
  with assms(2,3) show ?thesis by simp
next
  case (Some u)
  let ?u1 = "u\<lparr>resetPasswordToken := Some (sha256 rnd),
                resetPasswordExpire := Some (now + 600000)\<rparr>"
  let ?db1 = "map (\<lambda>d. if uid d = uid u then ?u1 else d) db"
  have mem: "u \<in> set db"
    using Some by (simp add: findOne_def find_Some_set)
  have hd: "tr ! 0 = Save ?u1" "tr ! 1 = SendEmail (reset_mail protocol host rnd u) ?db1"
    and rest: "length tr = 4" "\<forall>m' s. tr ! 0 \<noteq> SendEmail m' s"
      "\<forall>m' s. tr ! 2 \<noteq> SendEmail m' s" "\<forall>m' s. tr ! 3 \<noteq> SendEmail m' s"
    using assms(1) by (simp_all add: forgotPassword_found [OF Some])
  from assms(2) rest(1) have "i = 0 \<or> i = 1 \<or> i = 2 \<or> i = 3" by arith
  with assms(3) rest have i: "i = 1" by auto
  with assms(3) hd(2) have m: "m = reset_mail protocol host rnd u" and s: "db' = ?db1"
    by simp_all
  have stored: "?u1 \<in> set db'"
    using mem by (force simp: s image_iff)
  have fields: "\<forall>d \<in> set db'. uid d = uid ?u1 \<longrightarrow>
                 resetPasswordToken d = Some (sha256 rnd)
                 \<and> resetPasswordExpire d = Some (now + 10 * 60 * 1000)"
    by (auto simp: s)
  have "tr ! 0 = Save ?u1 \<and> mail_email m = email ?u1
          \<and> resetPasswordToken ?u1 = Some (sha256 rnd)
          \<and> resetPasswordExpire ?u1 = Some (now + 10 * 60 * 1000)
          \<and> db' = map (\<lambda>d. if uid d = uid ?u1 then ?u1 else d) db"
    using hd(1) m s by (simp add: reset_mail_def)
  with stored fields i show ?thesis
    by (intro exI [of _ 0] exI [of _ ?u1]) simp
qed

text \<open>
  The theorem at Ann's request, for a mailer that fails: the mailer is called in a store
  where Ann's record holds the token hash and the expiry, although the store the request
  ends with has them cleared again.
\<close>

theorem forgotPassword_save_before_mail_witness:
  "snd (forgotPassword demo_sha256 (\<lambda>m. False) ''r4nd0m'' 1000 ''http'' ''localhost:5000''
          ''ann@x.com'' ([ann, bob], [])) ! 0 =
     Save (ann\<lparr>resetPasswordToken := Some ''#r4nd0m'', resetPasswordExpire := Some 601000\<rparr>)
   \<and> snd (forgotPassword demo_sha256 (\<lambda>m. False) ''r4nd0m'' 1000 ''http'' ''localhost:5000''
          ''ann@x.com'' ([ann, bob], [])) ! 1 =
     SendEmail (reset_mail ''http'' ''localhost:5000'' ''r4nd0m'' ann)
       [ann\<lparr>resetPasswordToken := Some ''#r4nd0m'', resetPasswordExpire := Some 601000\<rparr>, bob]
   \<and> fst (forgotPassword demo_sha256 (\<lambda>m. False) ''r4nd0m'' 1000 ''http'' ''localhost:5000''
          ''ann@x.com'' ([ann, bob], [])) = [ann, bob]"
proof -
  have f: "findOne (\<lambda>d. email d = ''ann@x.com'') [ann, bob] = Some ann"
    by (simp add: findOne_def ann_def)
  have l: "1 < length (snd (forgotPassword demo_sha256 (\<lambda>m. False) ''r4nd0m'' 1000 ''http''
          ''localhost:5000'' ''ann@x.com'' ([ann, bob], [])))"
    by (simp add: forgotPassword_found [OF f])
  have s: "snd (forgotPassword demo_sha256 (\<lambda>m. False) ''r4nd0m'' 1000 ''http'' ''localhost:5000''
          ''ann@x.com'' ([ann, bob], [])) ! 1 =
     SendEmail (reset_mail ''http'' ''localhost:5000'' ''r4nd0m'' ann)
       [ann\<lparr>resetPasswordToken := Some ''#r4nd0m'', resetPasswordExpire := Some 601000\<rparr>, bob]"
    by (simp add: forgotPassword_found [OF f] demo_sha256_def) (simp add: ann_def bob_def)
  have e: "fst (forgotPassword demo_sha256 (\<lambda>m. False) ''r4nd0m'' 1000 ''http'' ''localhost:5000''
          ''ann@x.com'' ([ann, bob], [])) = [ann, bob]"
    by (simp add: forgotPassword_found [OF f]) (simp add: ann_def bob_def)
  have v: "snd (forgotPassword demo_sha256 (\<lambda>m. False) ''r4nd0m'' 1000 ''http'' ''localhost:5000''
          ''ann@x.com'' ([ann, bob], [])) ! 0 =
     Save (ann\<lparr>resetPasswordToken := Some ''#r4nd0m'', resetPasswordExpire := Some 601000\<rparr>)"
    by (simp add: forgotPassword_found [OF f] demo_sha256_def)
  show ?thesis
    using forgotPassword_save_before_mail [OF refl l s] v s e by simp
qed

text \<open>
  C6. When ForgotPassword finds the User and the mail goes out, the request gets exactly
  one response: status 200 with the data "Email sent". No error is handed to
  \<^verbatim>\<open>next\<close> by the handler. The \<^verbatim>\<open>res.json\<close> after the \<^verbatim>\<open>try\<close> statement runs on the
  answered request, writes nothing and throws \<^verbatim>\<open>ERR_HTTP_HEADERS_SENT\<close>, which is the
  last thing the handler does.
\<close>

theorem forgotPassword_one_response:
  assumes "findOne (\<lambda>d. email d = body_email) db = Some u"
      and "sendEmail (reset_mail protocol host rnd u)"
      and "out = forgotPassword sha256 sendEmail rnd now protocol host body_email (db, [])"
  shows "responses (snd out) = [\<lparr>status = 200, cookie = None, body = DataText ''Email sent''\<rparr>]
       \<and> errors (snd out) = []
       \<and> last (snd out) = Throw ''ERR_HTTP_HEADERS_SENT''"
  using assms by (simp add: forgotPassword_found)

theorem forgotPassword_one_response_witness:
  "responses (snd (forgotPassword demo_sha256 (\<lambda>m. True) ''r4nd0m'' 1000 ''http''
      ''localhost:5000'' ''ann@x.com'' ([ann, bob], []))) =
     [\<lparr>status = 200, cookie = None, body = DataText ''Email sent''\<rparr>]
   \<and> snd (forgotPassword demo_sha256 (\<lambda>m. True) ''r4nd0m'' 1000 ''http''
      ''localhost:5000'' ''ann@x.com'' ([ann, bob], [])) =
     [Save (ann\<lparr>resetPasswordToken := Some ''#r4nd0m'', resetPasswordExpire := Some 601000\<rparr>),
      SendEmail (reset_mail ''http'' ''localhost:5000'' ''r4nd0m'' ann)
        [ann\<lparr>resetPasswordToken := Some ''#r4nd0m'', resetPasswordExpire := Some 601000\<rparr>, bob],
      Respond \<lparr>status = 200, cookie = None, body = DataText ''Email sent''\<rparr>,
      Throw ''ERR_HTTP_HEADERS_SENT'']"
proof -
  have f: "findOne (\<lambda>d. email d = ''ann@x.com'') [ann, bob] = Some ann"
    by (simp add: findOne_def ann_def)
  have v: "snd (forgotPassword demo_sha256 (\<lambda>m. True) ''r4nd0m'' 1000 ''http''
      ''localhost:5000'' ''ann@x.com'' ([ann, bob], [])) =
     [Save (ann\<lparr>resetPasswordToken := Some ''#r4nd0m'', resetPasswordExpire := Some 601000\<rparr>),
      SendEmail (reset_mail ''http'' ''localhost:5000'' ''r4nd0m'' ann)
        [ann\<lparr>resetPasswordToken := Some ''#r4nd0m'', resetPasswordExpire := Some 601000\<rparr>, bob],
      Respond \<lparr>status = 200, cookie = None, body = DataText ''Email sent''\<rparr>,
      Throw ''ERR_HTTP_HEADERS_SENT'']"
    by (simp add: forgotPassword_found [OF f] demo_sha256_def) (simp add: ann_def bob_def)
  show ?thesis
    using forgotPassword_one_response [OF f, of "\<lambda>m. True" "''http''" "''localhost:5000''"
            "''r4nd0m''" _ demo_sha256 1000, OF _ refl] v
    by simp
qed

section \<open>Reset password: replaying a token\<close>

lemma filter_at_most_one:
  assumes "length (filter P xs) \<le> 1" and "x \<in> set xs" and "P x"
  shows "\<forall>y \<in> set xs. P y \<longrightarrow> y = x"
proof -
  from assms(2,3) have x: "x \<in> set (filter P xs)" by simp
  from assms(1) x have "filter P xs = [x]"
    by (cases "filter P xs") auto
  then have "set (filter P xs) = {x}" by simp
  then show ?thesis by auto
qed

text \<open>
  C4. A reset token is accepted at most once. Let a ResetPassword request find its User,
  in a store where no other document carries the hash of the presented token (tokens are
  drawn at random, one per request). Then the request succeeds, the document it saves and
  the stored User have \<open>resetPasswordToken\<close> and \<open>resetPasswordExpire\<close> absent, and
  every later ResetPassword that presents the same token, at whatever time and with
  whatever new password, fails with "Invalid Token", 400, and changes nothing.
\<close>

theorem resetPassword_single_use:
  assumes "findOne (reset_query (sha256 resettoken) now) db = Some u"
      and "length (filter (\<lambda>d. resetPasswordToken d = Some (sha256 resettoken)) db) \<le> 1"
      and "out = resetPassword sha256 hashPassword sign cfg now now' resettoken body_password
                   (db, [])"
  shows "succeeded (snd out)
       \<and> last (saves (snd out)) =
           u\<lparr>password := hashPassword body_password, resetPasswordToken := None,
              resetPasswordExpire := None\<rparr>
       \<and> (\<exists>d \<in> set (fst out). uid d = uid u)
       \<and> (\<forall>d \<in> set (fst out). uid d = uid u \<longrightarrow>
             resetPasswordToken d = None \<and> resetPasswordExpire d = None)
       \<and> resetPassword sha256 hashPassword' sign' cfg' later later' resettoken password'
           (fst out, []) =
         (fst out, [Next (ErrorResponse ''Invalid Token'' 400)])"
proof -
  let ?h = "sha256 resettoken"
  let ?u1 = "u\<lparr>password := hashPassword body_password, resetPasswordToken := None,
                resetPasswordExpire := None\<rparr>"
  have mem: "u \<in> set db" and held: "resetPasswordToken u = Some ?h"
    using assms(1) by (auto simp: findOne_def reset_query_iff dest: find_Some_set)
  have only: "\<forall>d \<in> set db. resetPasswordToken d = Some ?h \<longrightarrow> d = u"
    using filter_at_most_one [OF assms(2) mem held] .
  have out: "out = sendTokenResponse sign cfg now' ?u1 200 (save ?u1 (db, []))"
    using assms(1,3) by (simp add: resetPassword_Some)
  have store: "fst out = map (\<lambda>d. if uid d = uid u then ?u1 else d) db"
    by (simp add: out sendTokenResponse_effects save_def)
  have effects: "succeeded (snd out)" "last (saves (snd out)) = ?u1"
    by (simp_all add: out sendTokenResponse_effects save_def headersSent_def succeeded_def)
  have "?u1 \<in> set (fst out)"
    using mem by (force simp: store image_iff)
  then have ex: "\<exists>d \<in> set (fst out). uid d = uid u"
    by (intro bexI [of _ ?u1]) simp_all
  have cleared: "\<forall>d \<in> set (fst out). uid d = uid u \<longrightarrow>
             resetPasswordToken d = None \<and> resetPasswordExpire d = None"
    by (auto simp: store)
  have gone: "\<forall>d \<in> set (fst out). resetPasswordToken d \<noteq> Some ?h"
    using only by (auto simp: store)
  then have "findOne (reset_query ?h later) (fst out) = None"
    by (simp add: findOne_def find_None_iff_set reset_query_iff)
  then have replay: "resetPassword sha256 hashPassword' sign' cfg' later later' resettoken
      password' (fst out, []) = (fst out, [Next (ErrorResponse ''Invalid Token'' 400)])"
    by (simp add: resetPassword_None)
  from effects ex cleared replay show ?thesis by blast
qed

text \<open>
  The theorem at Bob's token: accepted at time 4000, turned down at time 4500, still
  before the expiry that was stored with it.
\<close>

theorem resetPassword_single_use_witness:
  "fst (resetPassword demo_sha256 demo_hashPassword demo_sign demo_env 4000 4001 ''tok''
          ''newpass'' ([ann, bob], [])) =
     [ann, bob\<lparr>password := ''$newpass'', resetPasswordToken := None,
               resetPasswordExpire := None\<rparr>]
   \<and> succeeded (snd (resetPassword demo_sha256 demo_hashPassword demo_sign demo_env 4000 4001
          ''tok'' ''newpass'' ([ann, bob], [])))
   \<and> resetPassword demo_sha256 demo_hashPassword demo_sign demo_env 4500 4501 ''tok'' ''again''
        ([ann, bob\<lparr>password := ''$newpass'', resetPasswordToken := None,
               resetPasswordExpire := None\<rparr>], []) =
       ([ann, bob\<lparr>password := ''$newpass'', resetPasswordToken := None,
               resetPasswordExpire := None\<rparr>], [Next (ErrorResponse ''Invalid Token'' 400)])"
proof -
  have f: "findOne (reset_query (demo_sha256 ''tok'') 4000) [ann, bob] = Some bob"
    by (simp add: findOne_def reset_query_def demo_sha256_def ann_def bob_def)
  have l: "length (filter (\<lambda>d. resetPasswordToken d = Some (demo_sha256 ''tok'')) [ann, bob]) \<le> 1"
    by (simp add: demo_sha256_def ann_def bob_def)
  have v: "fst (resetPassword demo_sha256 demo_hashPassword demo_sign demo_env 4000 4001 ''tok''
          ''newpass'' ([ann, bob], [])) =
     [ann, bob\<lparr>password := ''$newpass'', resetPasswordToken := None,
               resetPasswordExpire := None\<rparr>]"
    using f by (simp add: resetPassword_Some sendTokenResponse_effects save_def
          demo_hashPassword_def) (simp add: ann_def bob_def)
  show ?thesis
    using resetPassword_single_use [of demo_sha256 "''tok''" 4000 "[ann, bob]" bob _
            demo_hashPassword demo_sign demo_env 4001 "''newpass''"
            demo_hashPassword demo_sign demo_env 4500 4501 "''again''", OF f l refl] v
    by simp
qed

section \<open>Bootcamps: deleting and creating\<close>

lemma find_deleteOne_distinct:
  "distinct (map bid db) \<Longrightarrow> find (\<lambda>b. bid b = i) (deleteOne (\<lambda>b. bid b = i) db) = None"
proof (induction db)
  case Nil
  then show ?case by simp
next
  case (Cons d ds)
  show ?case
  proof (cases "bid d = i")
    case True
    with Cons.prems have "\<forall>x \<in> set ds. bid x \<noteq> i" by (auto simp: image_iff)
    with True show ?thesis by (simp add: find_None_iff_set)
  next
    case False
    with Cons show ?thesis by simp
  qed
qed

lemma length_deleteOne:
  "find P db = Some b \<Longrightarrow> Suc (length (deleteOne P db)) = length db"
  by (induction db) (auto split: if_splits)

lemma find_deleteOne_other:
  "j \<noteq> i \<Longrightarrow>
   find (\<lambda>b. bid b = j) (deleteOne (\<lambda>b. bid b = i) db) = find (\<lambda>b. bid b = j) db"
  by (induction db) auto

text \<open>
  C9. Let a DeleteBootcamp request name a stored bootcamp (ids are unique in the
  collection) whose owner is not the caller, and let the caller's role not be admin. The
  handler forwards the error "User <id> is not authorized to delete this bootcamp" with
  status 401 and writes no response, and yet the bootcamp is gone from the store: the
  collection is one document shorter and the id is no longer found, because
  \<^verbatim>\<open>findByIdAndDelete\<close> ran before the ownership check.
\<close>

theorem deleteBootcamp_unauthorized:
  assumes "distinct (map bid db)"
      and "findById req_id db = Some b"
      and "user b \<noteq> user_id"
      and "user_role \<noteq> ''admin''"
      and "out = deleteBootcamp req_id user_id user_role (db, [])"
  shows "snd out = [Next (ErrorResponse
                      (''User '' @ user_id @ '' is not authorized to delete this bootcamp'') 401)]
       \<and> findById req_id (fst out) = None
       \<and> Suc (length (fst out)) = length db"
proof -
  have out: "out = (deleteOne (\<lambda>d. bid d = req_id) db,
                    [Next (ErrorResponse
                      (''User '' @ user_id @ '' is not authorized to delete this bootcamp'') 401)])"
    using assms(2-5) by (simp add: deleteBootcamp_def findByIdAndDelete_def next_err_def)
  have gone: "findById req_id (fst out) = None"
    using assms(1) by (simp add: out findById_def findOne_def find_deleteOne_distinct)
  have len: "Suc (length (fst out)) = length db"
    using assms(2) by (simp add: out findById_def findOne_def length_deleteOne)
  from out gone len show ?thesis by simp
qed

text \<open>The theorem at Bob, a publisher, deleting Ann's bootcamp.\<close>

theorem deleteBootcamp_unauthorized_witness:
  "deleteBootcamp ''b1'' ''u2'' ''publisher'' ([camp1, camp2], []) =
     ([camp2], [Next (ErrorResponse ''User u2 is not authorized to delete this bootcamp'' 401)])
   \<and> findById ''b1'' [camp1, camp2] = Some camp1
   \<and> findById ''b1'' (fst (deleteBootcamp ''b1'' ''u2'' ''publisher'' ([camp1, camp2], []))) = None"
proof -
  have d: "distinct (map bid [camp1, camp2])"
    by (simp add: camp1_def camp2_def)
  have f: "findById ''b1'' [camp1, camp2] = Some camp1"
    by (simp add: findById_def findOne_def camp1_def)
  have o: "user camp1 \<noteq> ''u2''"
    by (simp add: camp1_def)
  have r: "''publisher'' \<noteq> ''admin''"
    by simp
  have v: "fst (deleteBootcamp ''b1'' ''u2'' ''publisher'' ([camp1, camp2], [])) = [camp2]"
    by (simp add: deleteBootcamp_def findByIdAndDelete_def findById_def findOne_def
          next_err_def camp1_def camp2_def)
  show ?thesis
    using deleteBootcamp_unauthorized [OF d f o r refl] f v
    by (simp add: prod_eq_iff)
qed

text \<open>
  C10. A caller whose role is not admin and who already owns a bootcamp gets the error
  "The user with id: <id> has already published a bootcamp" with status 400, and the
  store stays as it was: \<^verbatim>\<open>Bootcamp.create\<close> is not reached. For a caller with role admin
  the limit does not apply: whatever the caller owns, the outcome is that of
  \<^verbatim>\<open>Bootcamp.create\<close> on the body with the caller's id as \<^verbatim>\<open>user\<close>, a 201 with the new
  document when it accepts the body.
\<close>

theorem createBootcamp_limit:
  "(user_role \<noteq> ''admin'' \<and> (\<exists>b \<in> set db. user b = user_id) \<longrightarrow>
      createBootcamp create user_id user_role req_body (db, []) =
        (db, [Next (ErrorResponse
                (''The user with id: '' @ user_id @ '' has already published a bootcamp'') 400)]))
   \<and> createBootcamp create user_id ''admin'' req_body (db, []) =
       (case create (req_body(''user'' \<mapsto> user_id)) db of
          Inl e \<Rightarrow> (db, [Next e])
        | Inr (bootcamp, db') \<Rightarrow>
            (db', [Respond \<lparr>status = 201, cookie = None, body = DataBootcamp bootcamp\<rparr>]))"
proof (intro conjI impI)
  assume a: "user_role \<noteq> ''admin'' \<and> (\<exists>b \<in> set db. user b = user_id)"
  then have "findOne (\<lambda>b. user b = user_id) db \<noteq> None"
    by (simp add: findOne_def find_None_iff_set)
  with a show "createBootcamp create user_id user_role req_body (db, []) =
        (db, [Next (ErrorResponse
                (''The user with id: '' @ user_id @ '' has already published a bootcamp'') 400)])"
    by (simp add: createBootcamp_def next_err_def)
next
  show "createBootcamp create user_id ''admin'' req_body (db, []) =
       (case create (req_body(''user'' \<mapsto> user_id)) db of
          Inl e \<Rightarrow> (db, [Next e])
        | Inr (bootcamp, db') \<Rightarrow>
            (db', [Respond \<lparr>status = 201, cookie = None, body = DataBootcamp bootcamp\<rparr>]))"
    by (simp add: createBootcamp_def next_err_def json_def headersSent_def
          split: sum.splits prod.splits)
qed

text \<open>
  The theorem at Ann, who owns a bootcamp: turned down as a publisher, served as an admin.
\<close>

theorem createBootcamp_limit_witness:
  "createBootcamp demo_create ''u1'' ''publisher'' Map.empty ([camp1, camp2], []) =
     ([camp1, camp2],
      [Next (ErrorResponse ''The user with id: u1 has already published a bootcamp'' 400)])
   \<and> createBootcamp demo_create ''u1'' ''admin'' Map.empty ([camp1, camp2], []) =
     ([camp1, camp2, \<lparr>bid = ''b3'', user = ''u1'', attrs = []\<rparr>],
      [Respond \<lparr>status = 201, cookie = None,
                body = DataBootcamp \<lparr>bid = ''b3'', user = ''u1'', attrs = []\<rparr>\<rparr>])"
proof -
  have r: "''publisher'' \<noteq> ''admin''"
    by simp
  have o: "user camp1 = ''u1''"
    by (simp add: camp1_def)
  then have e: "\<exists>b \<in> set [camp1, camp2]. user b = ''u1''"
    by simp
  show ?thesis
    using createBootcamp_limit [of "''publisher''" "[camp1, camp2]" "''u1''" demo_create Map.empty]
          r e o
    by (simp add: demo_create_def Let_def)
qed

end
